theory Spec2Isabelle
  imports Complex_Main "HOL-Library.Word" "HOL-Library.Multiset"
begin

unbundle bit_operations_syntax

section \<open>Data model\<close>

text \<open>
  \<^verbatim>\<open>PromptSegment\<close> (components/PromptSegment.tsx). The field \<^verbatim>\<open>id\<close> is named
  \<open>id_seg\<close> here; \<^verbatim>\<open>isExpanded\<close> is optional in the source. JavaScript strings are
  modelled as HOL strings and the integral numbers the code stores in \<^verbatim>\<open>order\<close> as
  integers.
\<close>

record PromptSegment =
  id_seg :: string
  content :: string
  title :: string
  isIncluded :: bool
  order :: int
  isEditing :: bool
  isExpanded :: "bool option"

text \<open>\<^verbatim>\<open>AppState\<close> of the hook \<^verbatim>\<open>usePromptEditor\<close>; \<^verbatim>\<open>error: string | null\<close>.\<close>

record AppState =
  originalPrompt :: string
  segments :: "PromptSegment list"
  finalOutput :: string
  isLoading :: bool
  error :: "string option"

text \<open>
  \<^verbatim>\<open>Partial<PromptSegment>\<close>: every field may be absent. \<open>None\<close> is an absent
  field, \<open>Some v\<close> a field that the spread \<^verbatim>\<open>{ ...segment, ...updates }\<close> overwrites.
\<close>

record SegmentUpdates =
  upd_id :: "string option"
  upd_content :: "string option"
  upd_title :: "string option"
  upd_isIncluded :: "bool option"
  upd_order :: "int option"
  upd_isEditing :: "bool option"
  upd_isExpanded :: "bool option"

section \<open>Derived output\<close>

text \<open>
  \<^verbatim>\<open>Array.prototype.sort(cmp)\<close> is stable; for a comparator that is a total preorder
  its result is the one of a stable insertion sort, which is how it is modelled: an
  element goes in front of the first element it does not compare greater than.
\<close>

fun insertBy :: "('a \<Rightarrow> 'a \<Rightarrow> int) \<Rightarrow> 'a \<Rightarrow> 'a list \<Rightarrow> 'a list" where
  "insertBy cmp x [] = [x]"
| "insertBy cmp x (y # ys) =
     (if cmp x y \<le> 0 then x # y # ys else y # insertBy cmp x ys)"

definition sortBy :: "('a \<Rightarrow> 'a \<Rightarrow> int) \<Rightarrow> 'a list \<Rightarrow> 'a list" where
  "sortBy cmp xs = foldr (insertBy cmp) xs []"

text \<open>\<^verbatim>\<open>Array.prototype.join(sep)\<close> on an array of strings.\<close>

fun join :: "string \<Rightarrow> string list \<Rightarrow> string" where
  "join sep [] = []"
| "join sep [x] = x"
| "join sep (x # y # ys) = x @ sep @ join sep (y # ys)"

text \<open>
  The body of \<^verbatim>\<open>updateFinalOutput\<close>:
  \<^verbatim>\<open>state.segments.filter(s => s.isIncluded).sort((a, b) => a.order - b.order)\<close>,
  then \<^verbatim>\<open>map(s => s.content).join('\n\n')\<close>.
\<close>

definition includedSegments :: "PromptSegment list \<Rightarrow> PromptSegment list" where
  "includedSegments segs = sortBy (\<lambda>a b. order a - order b) (filter isIncluded segs)"

definition outputOf :: "PromptSegment list \<Rightarrow> string" where
  "outputOf segs = join [CHR 0x0A, CHR 0x0A] (map content (includedSegments segs))"

definition updateFinalOutput :: "AppState \<Rightarrow> AppState" where
  "updateFinalOutput st = st\<lparr>finalOutput := outputOf (segments st)\<rparr>"

section \<open>State updaters of the hook\<close>

text \<open>The initial value of \<^verbatim>\<open>useState<AppState>\<close>.\<close>

definition initialState :: AppState where
  "initialState =
     \<lparr>originalPrompt = [], segments = [], finalOutput = [], isLoading = False, error = None\<rparr>"

definition setOriginalPrompt :: "string \<Rightarrow> AppState \<Rightarrow> AppState" where
  "setOriginalPrompt prompt prev =
     prev\<lparr>originalPrompt := prompt, segments := [], finalOutput := [], error := None\<rparr>"

text \<open>The object spread \<^verbatim>\<open>{ ...segment, ...updates }\<close>.\<close>

definition applyUpdates :: "PromptSegment \<Rightarrow> SegmentUpdates \<Rightarrow> PromptSegment" where
  "applyUpdates s u =
     \<lparr>id_seg = (case upd_id u of None \<Rightarrow> id_seg s | Some v \<Rightarrow> v),
      content = (case upd_content u of None \<Rightarrow> content s | Some v \<Rightarrow> v),
      title = (case upd_title u of None \<Rightarrow> title s | Some v \<Rightarrow> v),
      isIncluded = (case upd_isIncluded u of None \<Rightarrow> isIncluded s | Some v \<Rightarrow> v),
      order = (case upd_order u of None \<Rightarrow> order s | Some v \<Rightarrow> v),
      isEditing = (case upd_isEditing u of None \<Rightarrow> isEditing s | Some v \<Rightarrow> v),
      isExpanded = (case upd_isExpanded u of None \<Rightarrow> isExpanded s | Some v \<Rightarrow> Some v)\<rparr>"

definition updateSegment :: "string \<Rightarrow> SegmentUpdates \<Rightarrow> AppState \<Rightarrow> AppState" where
  "updateSegment i updates prev =
     prev\<lparr>segments :=
       map (\<lambda>segment. if id_seg segment = i then applyUpdates segment updates else segment)
         (segments prev)\<rparr>"

text \<open>\<^verbatim>\<open>newSegments.map((segment, index) => ({ ...segment, order: index }))\<close>.\<close>

definition withIndexOrder :: "PromptSegment list \<Rightarrow> PromptSegment list" where
  "withIndexOrder newSegments =
     map (\<lambda>(index, segment). segment\<lparr>order := int index\<rparr>) (enumerate 0 newSegments)"

definition reorderSegments :: "PromptSegment list \<Rightarrow> AppState \<Rightarrow> AppState" where
  "reorderSegments newSegments prev = prev\<lparr>segments := withIndexOrder newSegments\<rparr>"

definition clearError :: "AppState \<Rightarrow> AppState" where
  "clearError prev = prev\<lparr>error := None\<rparr>"

section \<open>Strings and numbers\<close>

text \<open>
  \<^verbatim>\<open>String.prototype.trim\<close>: the white space among the code units below 256 is
  TAB, LF, VT, FF, CR, SPACE and NBSP.
\<close>

definition isWhiteSpace :: "char \<Rightarrow> bool" where
  "isWhiteSpace c = ((of_char c :: nat) \<in> set [9, 10, 11, 12, 13, 32, 160])"

definition trim :: "string \<Rightarrow> string" where
  "trim s = rev (dropWhile isWhiteSpace (rev (dropWhile isWhiteSpace s)))"

text \<open>The decimal numeral a template literal prints for an integral number.\<close>

definition digit :: "nat \<Rightarrow> char" where
  "digit d =
     (if d = 0 then CHR ''0'' else if d = 1 then CHR ''1'' else if d = 2 then CHR ''2''
      else if d = 3 then CHR ''3'' else if d = 4 then CHR ''4'' else if d = 5 then CHR ''5''
      else if d = 6 then CHR ''6'' else if d = 7 then CHR ''7'' else if d = 8 then CHR ''8''
      else CHR ''9'')"

fun showNat :: "nat \<Rightarrow> string" where
  "showNat n = (if n < 10 then [digit n] else showNat (n div 10) @ [digit (n mod 10)])"

declare showNat.simps [simp del]

definition showInt :: "int \<Rightarrow> string" where
  "showInt i = (if i < 0 then CHR ''-'' # showNat (nat (- i)) else showNat (nat i))"

text \<open>\<^verbatim>\<open>x || d\<close> on an optional string: \<^verbatim>\<open>undefined\<close> and \<^verbatim>\<open>''\<close> are falsy.\<close>

definition orElse :: "string option \<Rightarrow> string \<Rightarrow> string" where
  "orElse x d = (case x of None \<Rightarrow> d | Some s \<Rightarrow> if s = [] then d else s)"

section \<open>Browser storage\<close>

text \<open>
  \<^verbatim>\<open>localStorage\<close> holds texts. The code writes only \<^verbatim>\<open>JSON.stringify\<close> of an
  object and reads with \<^verbatim>\<open>JSON.parse\<close>; an item is modelled by what
  \<^verbatim>\<open>JSON.parse\<close> makes of its text: either it throws (\<open>Unparsable\<close>) or it yields an
  object, of which the code reads the properties \<^verbatim>\<open>data\<close>, \<^verbatim>\<open>timestamp\<close>,
  \<^verbatim>\<open>originalPrompt\<close> and \<^verbatim>\<open>segments\<close>, each of which may be missing. The payloads
  the service caches are segment arrays and strings; on these records of strings,
  booleans and integers \<^verbatim>\<open>JSON.parse\<close> inverts \<^verbatim>\<open>JSON.stringify\<close>.
\<close>

datatype Payload = PSegments "PromptSegment list" | PText string

record StoredObject =
  obj_data :: "Payload option"
  obj_timestamp :: "int option"
  obj_originalPrompt :: "string option"
  obj_segments :: "PromptSegment list option"

datatype Item = Unparsable | Parsed StoredObject

type_synonym Storage = "string \<rightharpoonup> Item"

text \<open>
  \<^verbatim>\<open>localStorage.setItem\<close> throws when the browser refuses the write (quota
  exceeded); whether it accepts is the browser's answer, the first argument.
  \<open>None\<close> is the exception.
\<close>

definition setItem :: "bool \<Rightarrow> string \<Rightarrow> Item \<Rightarrow> Storage \<Rightarrow> Storage option" where
  "setItem accepted key v ls = (if accepted then Some (ls(key \<mapsto> v)) else None)"

definition removeItem :: "string \<Rightarrow> Storage \<Rightarrow> Storage" where
  "removeItem key ls = ls(key := None)"

section \<open>The result cache of the service\<close>

definition cachePrefix :: string where
  "cachePrefix = ''prompt-editor-cache-''"

text \<open>
  \<^verbatim>\<open>hash = ((hash << 5) - hash) + char; hash = hash & hash\<close>: the bitwise operators
  work on 32-bit integers and the arithmetic between them is exact, so one round is
  the same arithmetic on a 32-bit word. \<^verbatim>\<open>Math.abs\<close> is taken of the signed value.
\<close>

definition hashStep :: "32 word \<Rightarrow> char \<Rightarrow> 32 word" where
  "hashStep hash c = (push_bit 5 hash - hash) + of_nat (of_char c)"

definition generateCacheKey :: "string \<Rightarrow> string \<Rightarrow> string" where
  "generateCacheKey operation input =
     cachePrefix @ operation @ ''-'' @ showNat (nat \<bar>sint (foldl hashStep 0 input)\<bar>)"

definition ttl :: int where
  "ttl = 24 * 60 * 60 * 1000"

text \<open>
  \<^verbatim>\<open>getCachedResult\<close>, with \<^verbatim>\<open>Date.now()\<close> as the first argument. The result is
  \<open>None\<close> for \<^verbatim>\<open>null\<close> and for a missing \<^verbatim>\<open>data\<close> property. A missing timestamp
  makes the difference \<^verbatim>\<open>NaN\<close> and the comparison false.
\<close>

definition getCachedResult :: "int \<Rightarrow> string \<Rightarrow> Storage \<Rightarrow> Payload option \<times> Storage" where
  "getCachedResult now key ls =
     (case ls key of
        None \<Rightarrow> (None, ls)
      | Some Unparsable \<Rightarrow> (None, ls)
      | Some (Parsed parsed) \<Rightarrow>
          (case obj_timestamp parsed of
             None \<Rightarrow> (None, removeItem key ls)
           | Some timestamp \<Rightarrow>
               if now - timestamp < ttl then (obj_data parsed, ls)
               else (None, removeItem key ls)))"

definition cacheData :: "Payload \<Rightarrow> int \<Rightarrow> StoredObject" where
  "cacheData d now =
     \<lparr>obj_data = Some d, obj_timestamp = Some now, obj_originalPrompt = None,
      obj_segments = None\<rparr>"

text \<open>\<^verbatim>\<open>setCachedResult\<close>: a refused write is caught and logged.\<close>

definition setCachedResult :: "bool \<Rightarrow> int \<Rightarrow> string \<Rightarrow> Payload \<Rightarrow> Storage \<Rightarrow> Storage" where
  "setCachedResult accepted now key d ls =
     (case setItem accepted key (Parsed (cacheData d now)) ls of
        Some ls' \<Rightarrow> ls'
      | None \<Rightarrow> ls)"

section \<open>The provider and the environment\<close>

datatype Model = Gpt5Mini | Gpt4oMini | Gpt35Turbo

record OpenAIConfig =
  apiKey :: string
  model :: Model

text \<open>
  The private fields of \<^verbatim>\<open>OpenAIService\<close>; the client is represented by the key it
  was built with.
\<close>

record OpenAIService =
  client :: "string option"
  config :: "OpenAIConfig option"

definition newService :: OpenAIService where
  "newService = \<lparr>client = None, config = None\<rparr>"

definition initialize :: "OpenAIConfig \<Rightarrow> OpenAIService \<Rightarrow> OpenAIService" where
  "initialize cfg this = this\<lparr>config := Some cfg, client := Some (apiKey cfg)\<rparr>"

definition isInitialized :: "OpenAIService \<Rightarrow> bool" where
  "isInitialized this = (client this \<noteq> None \<and> config this \<noteq> None)"

text \<open>
  What \<^verbatim>\<open>chat.completions.create\<close> is called with. The two fixed system prompts and
  user-message prefixes are determined by the operation.
\<close>

datatype Operation = BreakSegments | MakeConcise

record Request =
  req_operation :: Operation
  req_model :: Model
  req_input :: string
  req_temperature :: rat
  req_max_tokens :: "nat option"
  req_max_completion_tokens :: "nat option"

text \<open>
  The first choices of a response: \<^verbatim>\<open>choice?.message?.content\<close> (\<open>None\<close> for
  \<^verbatim>\<open>null\<close> or a missing message) and \<^verbatim>\<open>finish_reason\<close>. A rejected call carries
  the message of the \<^verbatim>\<open>Error\<close> thrown, or \<open>None\<close> when the value thrown is no
  \<^verbatim>\<open>Error\<close>.
\<close>

record Choice =
  message_content :: "string option"
  finish_reason :: string

datatype ProviderResult = Completion "Choice list" | Rejected "string option"

text \<open>
  What \<^verbatim>\<open>JSON.parse(content)\<close> followed by \<^verbatim>\<open>segments.map\<close> makes of the provider's
  text: an array of records with optional \<^verbatim>\<open>title\<close> and \<^verbatim>\<open>content\<close>, or an
  \<^verbatim>\<open>Error\<close> (a \<^verbatim>\<open>SyntaxError\<close>, or the \<^verbatim>\<open>TypeError\<close> of a value that is no such
  array) with its message.
\<close>

record RawSegment =
  raw_title :: "string option"
  raw_content :: "string option"

datatype ParseResult = ParseThrew string | ParsedArray "RawSegment list"

text \<open>
  Everything one call of the service takes from outside: the readings of
  \<^verbatim>\<open>Date.now()\<close> (in \<^verbatim>\<open>getCachedResult\<close>, for the id of the segment at each index,
  in \<^verbatim>\<open>setCachedResult\<close>), whether the browser accepts the cache write, the
  provider's answer and the JSON parser.
\<close>

record Env =
  dateNow_get :: int
  dateNow_id :: "nat \<Rightarrow> int"
  dateNow_set :: int
  setItemAccepted :: bool
  provider :: "Request \<Rightarrow> ProviderResult"
  jsonParse :: "string \<Rightarrow> ParseResult"

text \<open>
  The world the hook and the service act on: the React state, the \<^verbatim>\<open>config\<close> state
  of the hook, the singleton \<^verbatim>\<open>openAIService\<close>, the browser storage, and the log of
  the requests sent to the provider.
\<close>

record World =
  state :: AppState
  hookConfig :: "OpenAIConfig option"
  openAIService :: OpenAIService
  localStorage :: Storage
  providerLog :: "Request list"

section \<open>The service\<close>

definition breakRequest :: "OpenAIConfig \<Rightarrow> string \<Rightarrow> Request" where
  "breakRequest cfg prompt =
     \<lparr>req_operation = BreakSegments, req_model = model cfg, req_input = prompt,
      req_temperature = (if model cfg = Gpt5Mini then 1 else 3 / 10),
      req_max_tokens = (if model cfg = Gpt5Mini then None else Some 16000),
      req_max_completion_tokens = None\<rparr>"

definition conciseRequest :: "OpenAIConfig \<Rightarrow> string \<Rightarrow> Request" where
  "conciseRequest cfg text =
     \<lparr>req_operation = MakeConcise, req_model = model cfg, req_input = text,
      req_temperature = (if model cfg = Gpt5Mini then 1 else 2 / 10),
      req_max_tokens = (if model cfg = Gpt5Mini then None else Some 2000),
      req_max_completion_tokens = (if model cfg = Gpt5Mini then Some 2000 else None)\<rparr>"

text \<open>\<^verbatim>\<open>error instanceof Error ? error.message : 'Unknown error'\<close>.\<close>

definition errorMessage :: "string option \<Rightarrow> string" where
  "errorMessage e = (case e of Some m \<Rightarrow> m | None \<Rightarrow> ''Unknown error'')"

definition notInitializedMessage :: string where
  "notInitializedMessage = ''OpenAI service not initialized''"

definition truncatedMessage :: string where
  "truncatedMessage =
     ''Response was truncated due to token limit. The prompt may be too large to process in one request.''"

definition noResponseMessage :: string where
  "noResponseMessage = ''No response from OpenAI''"

definition breakFailed :: "string \<Rightarrow> string" where
  "breakFailed m = ''Failed to break prompt into segments: '' @ m"

definition conciseFailed :: "string \<Rightarrow> string" where
  "conciseFailed m = ''Failed to make content concise: '' @ m"

text \<open>The callback of \<^verbatim>\<open>segments.map\<close> in \<^verbatim>\<open>breakPromptIntoSegments\<close>.\<close>

definition toPromptSegment :: "Env \<Rightarrow> nat \<Rightarrow> RawSegment \<Rightarrow> PromptSegment" where
  "toPromptSegment env index segment =
     \<lparr>id_seg = ''segment-'' @ showInt (dateNow_id env index) @ ''-'' @ showNat index,
      content = orElse (raw_content segment) [],
      title = orElse (raw_title segment) (''Segment '' @ showNat (index + 1)),
      isIncluded = True,
      order = int index,
      isEditing = False,
      isExpanded = Some False\<rparr>"

text \<open>
  The \<^verbatim>\<open>try\<close> block of \<^verbatim>\<open>breakPromptIntoSegments\<close> from the provider's answer on:
  \<open>Inl\<close> is the message of the \<^verbatim>\<open>Error\<close> thrown inside it.
\<close>

definition breakResponse :: "Env \<Rightarrow> ProviderResult \<Rightarrow> string + PromptSegment list" where
  "breakResponse env response =
     (case response of
        Rejected e \<Rightarrow> Inl (errorMessage e)
      | Completion choices \<Rightarrow>
          (case (case choices of [] \<Rightarrow> None | choice # _ \<Rightarrow> Some choice) of
             None \<Rightarrow> Inl noResponseMessage
           | Some choice \<Rightarrow>
               (case message_content choice of
                  Some (c # cs) \<Rightarrow>
                    (case jsonParse env (c # cs) of
                       ParseThrew m \<Rightarrow> Inl m
                     | ParsedArray segs \<Rightarrow>
                         Inr (map (\<lambda>(index, segment). toPromptSegment env index segment)
                                (enumerate 0 segs)))
                | _ \<Rightarrow>
                    if finish_reason choice = ''length'' then Inl truncatedMessage
                    else Inl noResponseMessage)))"

text \<open>
  \<^verbatim>\<open>OpenAIService.breakPromptIntoSegments\<close>. \<open>Inl\<close> is the message of the \<^verbatim>\<open>Error\<close>
  the promise rejects with. A cache hit is a truthy cached value that is an array.
\<close>

definition OpenAIService_breakPromptIntoSegments ::
  "Env \<Rightarrow> string \<Rightarrow> World \<Rightarrow> (string + PromptSegment list) \<times> World" where
  "OpenAIService_breakPromptIntoSegments env prompt w =
     (case (client (openAIService w), config (openAIService w)) of
        (Some _, Some cfg) \<Rightarrow>
          (let cacheKey = generateCacheKey ''break-segments'' prompt;
               (cached, ls) = getCachedResult (dateNow_get env) cacheKey (localStorage w)
           in case cached of
                Some (PSegments segs) \<Rightarrow> (Inr segs, w\<lparr>localStorage := ls\<rparr>)
              | _ \<Rightarrow>
                  (let request = breakRequest cfg prompt;
                       w' = w\<lparr>localStorage := ls, providerLog := providerLog w @ [request]\<rparr>
                   in case breakResponse env (provider env request) of
                        Inl m \<Rightarrow> (Inl (breakFailed m), w')
                      | Inr result \<Rightarrow>
                          (Inr result,
                           w'\<lparr>localStorage :=
                                setCachedResult (setItemAccepted env) (dateNow_set env) cacheKey
                                  (PSegments result) ls\<rparr>)))
      | _ \<Rightarrow> (Inl notInitializedMessage, w))"

text \<open>The \<^verbatim>\<open>try\<close> block of \<^verbatim>\<open>makeConcise\<close> from the provider's answer on.\<close>

definition conciseResponse :: "ProviderResult \<Rightarrow> string + string" where
  "conciseResponse response =
     (case response of
        Rejected e \<Rightarrow> Inl (errorMessage e)
      | Completion choices \<Rightarrow>
          (case (case choices of [] \<Rightarrow> None | choice # _ \<Rightarrow> message_content choice) of
             Some (c # cs) \<Rightarrow> Inr (trim (c # cs))
           | _ \<Rightarrow> Inl noResponseMessage))"

text \<open>
  \<^verbatim>\<open>OpenAIService.makeConcise\<close>. A cache hit is a truthy cached value that is a
  string, so a cached empty string is no hit.
\<close>

definition OpenAIService_makeConcise ::
  "Env \<Rightarrow> string \<Rightarrow> World \<Rightarrow> (string + string) \<times> World" where
  "OpenAIService_makeConcise env text w =
     (case (client (openAIService w), config (openAIService w)) of
        (Some _, Some cfg) \<Rightarrow>
          (let cacheKey = generateCacheKey ''make-concise'' text;
               (cached, ls) = getCachedResult (dateNow_get env) cacheKey (localStorage w)
           in case cached of
                Some (PText (c # cs)) \<Rightarrow> (Inr (c # cs), w\<lparr>localStorage := ls\<rparr>)
              | _ \<Rightarrow>
                  (let request = conciseRequest cfg text;
                       w' = w\<lparr>localStorage := ls, providerLog := providerLog w @ [request]\<rparr>
                   in case conciseResponse (provider env request) of
                        Inl m \<Rightarrow> (Inl (conciseFailed m), w')
                      | Inr trimmedResult \<Rightarrow>
                          (Inr trimmedResult,
                           w'\<lparr>localStorage :=
                                setCachedResult (setItemAccepted env) (dateNow_set env) cacheKey
                                  (PText trimmedResult) ls\<rparr>)))
      | _ \<Rightarrow> (Inl notInitializedMessage, w))"

section \<open>The asynchronous operations and the session of the hook\<close>

text \<open>
  The effect \<^verbatim>\<open>useEffect(() => { updateFinalOutput(); }, [state.segments])\<close> runs after
  every render in which \<^verbatim>\<open>state.segments\<close> is a new array, that is after every
  \<^verbatim>\<open>setState\<close> whose updater assigns \<^verbatim>\<open>segments\<close>. \<open>withEffect\<close> is such a
  \<^verbatim>\<open>setState\<close> with the effect that follows it. An operation is modelled as one
  step: no other callback runs between its \<^verbatim>\<open>setState\<close> calls.
\<close>

definition withEffect :: "(AppState \<Rightarrow> AppState) \<Rightarrow> AppState \<Rightarrow> AppState" where
  "withEffect updater prev = updateFinalOutput (updater prev)"

definition startLoading :: "AppState \<Rightarrow> AppState" where
  "startLoading prev = prev\<lparr>isLoading := True, error := None\<rparr>"

definition failLoading :: "string \<Rightarrow> AppState \<Rightarrow> AppState" where
  "failLoading message prev = prev\<lparr>isLoading := False, error := Some message\<rparr>"

text \<open>The callback \<^verbatim>\<open>breakPromptIntoSegments\<close> of the hook.\<close>

definition breakPromptIntoSegments :: "Env \<Rightarrow> World \<Rightarrow> World" where
  "breakPromptIntoSegments env w =
     (if trim (originalPrompt (state w)) = [] \<or> \<not> isInitialized (openAIService w) then w
      else
        (case OpenAIService_breakPromptIntoSegments env (originalPrompt (state w))
                (w\<lparr>state := startLoading (state w)\<rparr>) of
           (Inr segs, w') \<Rightarrow>
             w'\<lparr>state := withEffect (\<lambda>prev. prev\<lparr>segments := segs, isLoading := False\<rparr>) (state w')\<rparr>
         | (Inl message, w') \<Rightarrow> w'\<lparr>state := failLoading message (state w')\<rparr>))"

text \<open>
  The callback \<^verbatim>\<open>makeConcise\<close> of the hook;
  \<^verbatim>\<open>state.segments.find(s => s.id === segmentId)\<close> is the first match.
\<close>

definition makeConcise :: "Env \<Rightarrow> string \<Rightarrow> World \<Rightarrow> World" where
  "makeConcise env segmentId w =
     (case find (\<lambda>s. id_seg s = segmentId) (segments (state w)) of
        None \<Rightarrow> w
      | Some segment \<Rightarrow>
          if \<not> isInitialized (openAIService w) then w
          else
            (case OpenAIService_makeConcise env (content segment)
                    (w\<lparr>state := startLoading (state w)\<rparr>) of
               (Inr conciseContent, w') \<Rightarrow>
                 w'\<lparr>state :=
                      (withEffect
                         (updateSegment segmentId
                            \<lparr>upd_id = None, upd_content = Some conciseContent, upd_title = None,
                             upd_isIncluded = None, upd_order = None, upd_isEditing = None,
                             upd_isExpanded = None\<rparr>)
                         (state w'))\<lparr>isLoading := False\<rparr>\<rparr>
             | (Inl message, w') \<Rightarrow> w'\<lparr>state := failLoading message (state w')\<rparr>))"

definition sessionKey :: string where
  "sessionKey = ''prompt-editor-session''"

definition sessionData :: "AppState \<Rightarrow> int \<Rightarrow> StoredObject" where
  "sessionData st now =
     \<lparr>obj_data = None, obj_timestamp = Some now, obj_originalPrompt = Some (originalPrompt st),
      obj_segments = Some (segments st)\<rparr>"

text \<open>
  \<^verbatim>\<open>saveSession\<close> has no handler around \<^verbatim>\<open>localStorage.setItem\<close>: \<open>None\<close> is the
  exception of a refused write leaving the callback.
\<close>

definition saveSession :: "bool \<Rightarrow> int \<Rightarrow> World \<Rightarrow> World option" where
  "saveSession accepted now w =
     (case setItem accepted sessionKey (Parsed (sessionData (state w) now)) (localStorage w) of
        None \<Rightarrow> None
      | Some ls \<Rightarrow> Some (w\<lparr>localStorage := ls\<rparr>))"

text \<open>\<^verbatim>\<open>loadSession\<close>, with the boolean it returns.\<close>

definition loadSession :: "World \<Rightarrow> bool \<times> World" where
  "loadSession w =
     (case localStorage w sessionKey of
        None \<Rightarrow> (False, w)
      | Some Unparsable \<Rightarrow> (False, w)
      | Some (Parsed saved) \<Rightarrow>
          (True,
           w\<lparr>state :=
               withEffect
                 (\<lambda>prev. prev\<lparr>originalPrompt := orElse (obj_originalPrompt saved) [],
                               segments := (case obj_segments saved of None \<Rightarrow> [] | Some l \<Rightarrow> l),
                               error := None\<rparr>)
                 (state w)\<rparr>))"

section \<open>Runs of the hook\<close>

text \<open>
  What the hook returns to the components, as actions; an asynchronous operation
  carries what the outside answers during it. \<^verbatim>\<open>setConfig\<close> with a configuration is
  followed by the effect that initialises the service.
\<close>

datatype Action =
    SetConfig "OpenAIConfig option"
  | SetOriginalPrompt string
  | BreakPromptIntoSegments Env
  | UpdateSegment string SegmentUpdates
  | ReorderSegments "PromptSegment list"
  | MakeConciseOf Env string
  | ClearError
  | SaveSession bool int
  | LoadSession
  | ExportOutput

fun perform :: "Action \<Rightarrow> World \<Rightarrow> World" where
  "perform (SetConfig c) w =
     (case c of
        None \<Rightarrow> w\<lparr>hookConfig := None\<rparr>
      | Some cfg \<Rightarrow> w\<lparr>hookConfig := Some cfg, openAIService := initialize cfg (openAIService w)\<rparr>)"
| "perform (SetOriginalPrompt prompt) w = w\<lparr>state := withEffect (setOriginalPrompt prompt) (state w)\<rparr>"
| "perform (BreakPromptIntoSegments env) w = breakPromptIntoSegments env w"
| "perform (UpdateSegment i updates) w = w\<lparr>state := withEffect (updateSegment i updates) (state w)\<rparr>"
| "perform (ReorderSegments newSegments) w =
     w\<lparr>state := withEffect (reorderSegments newSegments) (state w)\<rparr>"
| "perform (MakeConciseOf env segmentId) w = makeConcise env segmentId w"
| "perform ClearError w = w\<lparr>state := clearError (state w)\<rparr>"
| "perform (SaveSession accepted now) w =
     (case saveSession accepted now w of None \<Rightarrow> w | Some w' \<Rightarrow> w')"
| "perform LoadSession w = snd (loadSession w)"
| "perform ExportOutput w = w"

definition run :: "Action list \<Rightarrow> World \<Rightarrow> World" where
  "run actions w = foldl (\<lambda>w a. perform a w) w actions"

text \<open>The world when the hook mounts, over whatever the browser storage holds.\<close>

definition initialWorld :: "Storage \<Rightarrow> World" where
  "initialWorld ls =
     \<lparr>state = initialState, hookConfig = None, openAIService = newService, localStorage = ls,
      providerLog = []\<rparr>"

section \<open>The derived output as the specification words it\<close>

text \<open>
  The content of the segments with \<open>isIncluded\<close>, in ascending \<open>order\<close> (segments of
  equal order in the sequence of the collection), joined with a blank line.
\<close>

definition derivedOutput :: "PromptSegment list \<Rightarrow> string" where
  "derivedOutput segs =
     join [CHR 0x0A, CHR 0x0A] (map content (sort_key order (filter isIncluded segs)))"

text \<open>The state invariant: the output held is the one computed from the segments held.\<close>

definition consistent :: "AppState \<Rightarrow> bool" where
  "consistent st = (finalOutput st = outputOf (segments st))"

text \<open>
  The age, at the instant \<open>now\<close>, of the cache entry stored under a key, when there
  is a parsable one with a timestamp.
\<close>

definition entryAge :: "int \<Rightarrow> string \<Rightarrow> Storage \<Rightarrow> int option" where
  "entryAge now key ls =
     (case ls key of
        Some (Parsed entry) \<Rightarrow>
          (case obj_timestamp entry of Some timestamp \<Rightarrow> Some (now - timestamp) | None \<Rightarrow> None)
      | _ \<Rightarrow> None)"

text \<open>
  A run used as the worked example below: a configured service, the prompt of two
  paragraphs, a provider that answers with two records, then the second segment is
  excluded.
\<close>

definition exampleConfig :: OpenAIConfig where
  "exampleConfig = \<lparr>apiKey = ''sk-test'', model = Gpt4oMini\<rparr>"

definition twoSegments :: "RawSegment list" where
  "twoSegments =
     [\<lparr>raw_title = Some ''First'', raw_content = Some ''A''\<rparr>,
      \<lparr>raw_title = None, raw_content = Some ''B''\<rparr>]"

definition twoRecordsText :: string where
  \<open>twoRecordsText = ''[{"title":"First","content":"A"},{"content":"B"}]''\<close>

definition answering :: "bool \<Rightarrow> int \<Rightarrow> ProviderResult \<Rightarrow> Env" where
  "answering accepted now response =
     \<lparr>dateNow_get = now, dateNow_id = (\<lambda>index. now), dateNow_set = now,
      setItemAccepted = accepted, provider = (\<lambda>request. response),
      jsonParse = (\<lambda>text. if text = twoRecordsText then ParsedArray twoSegments
                            else ParseThrew ''Unexpected token'')\<rparr>"

definition twoRecords :: ProviderResult where
  "twoRecords =
     Completion [\<lparr>message_content = Some twoRecordsText, finish_reason = ''stop''\<rparr>]"

definition truncated :: ProviderResult where
  "truncated = Completion [\<lparr>message_content = None, finish_reason = ''length''\<rparr>]"

definition exclude :: SegmentUpdates where
  "exclude =
     \<lparr>upd_id = None, upd_content = None, upd_title = None, upd_isIncluded = Some False,
      upd_order = None, upd_isEditing = None, upd_isExpanded = None\<rparr>"

definition exampleRun :: "Action list" where
  "exampleRun =
     [SetConfig (Some exampleConfig),
      SetOriginalPrompt [CHR ''A'', CHR 0x0A, CHR 0x0A, CHR ''B''],
      BreakPromptIntoSegments (answering True 1000 twoRecords),
      UpdateSegment ''segment-1000-1'' exclude]"

text \<open>
  The second example of the specification: the segments \<open>A\<close> and \<open>B\<close>, both
  included, in this order.
\<close>

definition segA :: PromptSegment where
  "segA =
     \<lparr>id_seg = ''a'', content = ''A'', title = ''First'', isIncluded = True, order = 0,
      isEditing = False, isExpanded = Some False\<rparr>"

definition segB :: PromptSegment where
  "segB =
     \<lparr>id_seg = ''b'', content = ''B'', title = ''Second'', isIncluded = True, order = 1,
      isEditing = False, isExpanded = None\<rparr>"

definition stateAB :: AppState where
  "stateAB =
     \<lparr>originalPrompt = [CHR ''A'', CHR 0x0A, CHR 0x0A, CHR ''B''], segments = [segA, segB],
      finalOutput = [CHR ''A'', CHR 0x0A, CHR 0x0A, CHR ''B''], isLoading = False,
      error = Some ''Failed to break prompt into segments: No response from OpenAI''\<rparr>"

definition worldAB :: World where
  "worldAB =
     \<lparr>state = stateAB, hookConfig = Some exampleConfig,
      openAIService = initialize exampleConfig newService, localStorage = Map.empty,
      providerLog = []\<rparr>"

text \<open>
  The segments the service makes of the two records at the instant 1000, the world
  \<open>worldAB\<close> with a saved session in the storage, and a provider answer to
  \<^verbatim>\<open>makeConcise\<close>.
\<close>

definition producedSegments :: "PromptSegment list" where
  "producedSegments =
     [\<lparr>id_seg = ''segment-1000-0'', content = ''A'', title = ''First'', isIncluded = True,
       order = 0, isEditing = False, isExpanded = Some False\<rparr>,
      \<lparr>id_seg = ''segment-1000-1'', content = ''B'', title = ''Segment 2'', isIncluded = True,
       order = 1, isEditing = False, isExpanded = Some False\<rparr>]"

definition worldSaved :: World where
  "worldSaved = worldAB\<lparr>localStorage := [sessionKey \<mapsto> Parsed (sessionData stateAB 5)]\<rparr>"

definition shortened :: ProviderResult where
  "shortened = Completion [\<lparr>message_content = Some '' b '', finish_reason = ''stop''\<rparr>]"

section \<open>Sorting lemmas\<close>

lemma insertBy_insort_key:
  "insertBy (\<lambda>a b. f a - f b) x ys = insort_key f x ys"
  by (induction ys) auto

lemma sortBy_sort_key: "sortBy (\<lambda>a b. f a - f b) xs = sort_key (f :: 'a \<Rightarrow> int) xs"
  by (induction xs) (simp_all add: sortBy_def insertBy_insort_key)

lemma outputOf_derivedOutput: "outputOf segs = derivedOutput segs"
  by (simp add: outputOf_def derivedOutput_def includedSegments_def sortBy_sort_key)

section \<open>The service leaves the React state alone\<close>

lemma state_service_break:
  "state (snd (OpenAIService_breakPromptIntoSegments env p w)) = state w"
  by (simp add: OpenAIService_breakPromptIntoSegments_def Let_def
      split: option.split prod.split sum.split Payload.split)

lemma state_service_concise:
  "state (snd (OpenAIService_makeConcise env p w)) = state w"
  by (simp add: OpenAIService_makeConcise_def Let_def
      split: option.split prod.split sum.split Payload.split list.split)

section \<open>The derived output is an invariant of every run\<close>

lemma consistent_withEffect: "consistent (withEffect f st)"
  by (simp add: consistent_def withEffect_def updateFinalOutput_def)

lemma consistent_break:
  "consistent (state w) \<Longrightarrow> consistent (state (breakPromptIntoSegments env w))"
  using state_service_break [of env "originalPrompt (state w)" "w\<lparr>state := startLoading (state w)\<rparr>"]
  by (auto simp: breakPromptIntoSegments_def withEffect_def updateFinalOutput_def failLoading_def
      startLoading_def consistent_def split: prod.split sum.split)

lemma consistent_concise:
  "consistent (state w) \<Longrightarrow> consistent (state (makeConcise env i w))"
proof (cases "find (\<lambda>s. id_seg s = i) (segments (state w))")
  case None
  assume "consistent (state w)"
  with None show ?thesis by (simp add: makeConcise_def)
next
  case (Some seg)
  assume c: "consistent (state w)"
  have "state (snd (OpenAIService_makeConcise env (content seg) (w\<lparr>state := startLoading (state w)\<rparr>)))
      = startLoading (state w)"
    by (simp add: state_service_concise)
  with c Some show ?thesis
    by (auto simp: makeConcise_def withEffect_def updateFinalOutput_def failLoading_def
        startLoading_def consistent_def split: prod.split sum.split)
qed

lemma consistent_load: "consistent (state w) \<Longrightarrow> consistent (state (snd (loadSession w)))"
  by (auto simp: loadSession_def consistent_withEffect split: option.split Item.split)

lemma consistent_save:
  "consistent (state w) \<Longrightarrow> saveSession a n w = Some w' \<Longrightarrow> consistent (state w')"
  by (auto simp: saveSession_def split: option.splits)

lemma consistent_perform: "consistent (state w) \<Longrightarrow> consistent (state (perform a w))"
proof (cases a)
  case (SaveSession acc n)
  assume "consistent (state w)"
  then show ?thesis using SaveSession consistent_save [of w acc n]
    by (simp split: option.split)
next
  case ClearError
  assume "consistent (state w)"
  then show ?thesis using ClearError by (simp add: clearError_def consistent_def)
next
  case (SetConfig c)
  assume "consistent (state w)"
  then show ?thesis using SetConfig by (simp split: option.split)
qed (simp_all add: consistent_withEffect consistent_break consistent_concise consistent_load)

lemma consistent_run: "consistent (state w) \<Longrightarrow> consistent (state (run acts w))"
  unfolding run_def by (induction acts arbitrary: w) (simp_all add: consistent_perform)

lemma consistent_initial: "consistent (state (initialWorld ls))"
  by (simp add: consistent_def initialWorld_def initialState_def outputOf_def
      includedSegments_def sortBy_def)

text \<open>
  The segments the output is made of are the included ones, each once, in ascending
  order.
\<close>

lemma ascending_included:
  "sorted (map order (sort_key order (filter isIncluded segs))) \<and>
   mset (sort_key order (filter isIncluded segs)) = mset (filter isIncluded segs)"
  by simp

text \<open>
  C1. In every state the hook reaches from its initial state, by any sequence of its
  operations and whatever the storage, the provider and the clock answer,
  \<open>finalOutput\<close> is the content of the segments with \<open>isIncluded\<close>, in ascending
  \<open>order\<close>, joined with a blank line: it only ever holds what is computed from the
  segments.
\<close>

theorem C1_finalOutput_is_derived:
  "finalOutput (state (run acts (initialWorld ls))) =
   derivedOutput (segments (state (run acts (initialWorld ls))))"
  using consistent_run [OF consistent_initial, of acts ls]
  by (simp add: consistent_def outputOf_derivedOutput)

text \<open>The definitions a concrete run is evaluated with.\<close>

lemmas eval_defs = run_def exampleRun_def initialWorld_def initialState_def newService_def
  initialize_def exampleConfig_def withEffect_def updateFinalOutput_def setOriginalPrompt_def
  outputOf_def includedSegments_def sortBy_def breakPromptIntoSegments_def trim_def
  isWhiteSpace_def isInitialized_def startLoading_def failLoading_def
  OpenAIService_breakPromptIntoSegments_def getCachedResult_def answering_def twoRecords_def
  breakResponse_def twoSegments_def toPromptSegment_def orElse_def showInt_def showNat.simps
  digit_def setCachedResult_def setItem_def updateSegment_def applyUpdates_def exclude_def
  breakRequest_def Let_def enumerate_eq_zip twoRecordsText_def

text \<open>
  The example of the specification: the prompt of two paragraphs is segmented into
  \<open>A\<close> and \<open>B\<close>, the second segment is excluded, and the output is \<open>A\<close>.
\<close>

theorem C1_finalOutput_is_derived_witness:
  "derivedOutput (segments (state (run exampleRun (initialWorld Map.empty)))) = ''A''"
proof -
  have "finalOutput (state (run exampleRun (initialWorld Map.empty))) = ''A''"
    by (simp add: eval_defs)
  then show ?thesis
    using C1_finalOutput_is_derived [of exampleRun Map.empty] by simp
qed

section \<open>Resetting the prompt\<close>

text \<open>
  C5. \<open>setOriginalPrompt text\<close> sets \<open>originalPrompt\<close> to the text, empties the
  segments and the output and clears the error, in the updater itself and in the state
  after the effect that follows it; \<open>isLoading\<close> is unchanged, and the service, the
  storage and the log of provider requests are untouched: no request is sent.
\<close>

theorem C5_setOriginalPrompt:
  "setOriginalPrompt text (state w) =
     (state w)\<lparr>originalPrompt := text, segments := [], finalOutput := [], error := None\<rparr> \<and>
   perform (SetOriginalPrompt text) w =
     w\<lparr>state := (state w)\<lparr>originalPrompt := text, segments := [], finalOutput := [],
                            error := None\<rparr>\<rparr> \<and>
   isLoading (state (perform (SetOriginalPrompt text) w)) = isLoading (state w) \<and>
   providerLog (perform (SetOriginalPrompt text) w) = providerLog w"
  by (simp add: setOriginalPrompt_def withEffect_def updateFinalOutput_def outputOf_def
      includedSegments_def sortBy_def)

theorem C5_setOriginalPrompt_witness:
  "state (perform (SetOriginalPrompt ''new'') worldAB) =
     \<lparr>originalPrompt = ''new'', segments = [], finalOutput = [], isLoading = False,
      error = None\<rparr> \<and>
   providerLog (perform (SetOriginalPrompt ''new'') worldAB) = []"
  using C5_setOriginalPrompt [of "''new''" worldAB]
  by (simp add: worldAB_def stateAB_def)

section \<open>Reordering\<close>

lemma order_indexed:
  "map order (map (\<lambda>(index, segment). segment\<lparr>order := int index\<rparr>) (enumerate n L)) =
   map int [n..<n + length L]"
  by (induction L arbitrary: n) (simp_all add: upt_rec)

lemma content_included_indexed:
  "map content
     (filter isIncluded
        (map (\<lambda>(index, segment). segment\<lparr>order := int index\<rparr>) (enumerate n L))) =
   map content (filter isIncluded L)"
  by (induction L arbitrary: n) simp_all

lemma sorted_withIndexOrder: "sorted (map order (withIndexOrder L))"
  unfolding withIndexOrder_def order_indexed
  by (simp add: sorted_map strict_mono_on_def sorted_wrt_map)

text \<open>After a reordering the output is the included contents in the sequence given.\<close>

lemma outputOf_withIndexOrder:
  "outputOf (withIndexOrder L) = join [CHR 0x0A, CHR 0x0A] (map content (filter isIncluded L))"
proof -
  have "sort_key order (filter isIncluded (withIndexOrder L)) = filter isIncluded (withIndexOrder L)"
    by (rule sort_key_id_if_sorted) (rule sorted_filter, rule sorted_withIndexOrder)
  then show ?thesis
    by (simp add: outputOf_derivedOutput derivedOutput_def)
       (simp add: withIndexOrder_def content_included_indexed)
qed

lemma nth_withIndexOrder:
  "i < length L \<Longrightarrow> withIndexOrder L ! i = (L ! i)\<lparr>order := int i\<rparr>"
  by (simp add: withIndexOrder_def nth_enumerate_eq)

lemma reorder_ascending:
  assumes c: "consistent st"
  shows "finalOutput (withEffect (reorderSegments (sort_key order (segments st))) st) =
         finalOutput st"
proof -
  have "finalOutput (withEffect (reorderSegments (sort_key order (segments st))) st)
      = outputOf (withIndexOrder (sort_key order (segments st)))"
    by (simp add: withEffect_def updateFinalOutput_def reorderSegments_def)
  also have "\<dots> = derivedOutput (segments st)"
    by (simp add: outputOf_withIndexOrder derivedOutput_def filter_sort)
  also have "\<dots> = finalOutput st"
    using c by (simp add: consistent_def outputOf_derivedOutput)
  finally show ?thesis .
qed

text \<open>
  C6. \<open>reorderSegments L\<close> makes the segments the list \<open>L\<close> with the order of each
  segment set to its position and nothing else changed. When \<open>L\<close> is the current
  segments in ascending order (segments of equal order kept in sequence), and the
  output held is the derived one, the output after the reordering and its effect is
  the output before; in particular when the segments are held in ascending order and
  \<open>L\<close> is the list held.
\<close>

theorem C6_reorder:
  "length (segments (reorderSegments L st)) = length L \<and>
   (\<forall>i < length L. segments (reorderSegments L st) ! i = (L ! i)\<lparr>order := int i\<rparr>) \<and>
   (consistent st \<longrightarrow>
      finalOutput (withEffect (reorderSegments (sort_key order (segments st))) st) =
      finalOutput st) \<and>
   (consistent st \<and> sorted (map order (segments st)) \<longrightarrow>
      finalOutput (withEffect (reorderSegments (segments st)) st) = finalOutput st)"
proof (intro conjI allI impI)
  show "length (segments (reorderSegments L st)) = length L"
    by (simp add: reorderSegments_def withIndexOrder_def)
next
  fix i assume "i < length L"
  then show "segments (reorderSegments L st) ! i = (L ! i)\<lparr>order := int i\<rparr>"
    by (simp add: reorderSegments_def nth_withIndexOrder)
next
  assume c: "consistent st"
  show "finalOutput (withEffect (reorderSegments (sort_key order (segments st))) st) =
        finalOutput st"
    using c by (rule reorder_ascending)
next
  assume "consistent st \<and> sorted (map order (segments st))"
  then have c: "consistent st" and "sort_key order (segments st) = segments st"
    by (simp_all add: sort_key_id_if_sorted)
  then show "finalOutput (withEffect (reorderSegments (segments st)) st) = finalOutput st"
    using reorder_ascending [OF c] by simp
qed

text \<open>
  On the segments \<open>A\<close>, \<open>B\<close>: reordering to \<open>B\<close>, \<open>A\<close> gives \<open>B\<close> the order 0 and
  \<open>A\<close> the order 1; reordering to the current order leaves the output as it is.
\<close>

theorem C6_reorder_witness:
  "segments (reorderSegments [segB, segA] stateAB) ! 0 = segB\<lparr>order := 0\<rparr> \<and>
   segments (reorderSegments [segB, segA] stateAB) ! 1 = segA\<lparr>order := 1\<rparr> \<and>
   consistent stateAB \<and>
   finalOutput (withEffect (reorderSegments (sort_key order (segments stateAB))) stateAB) =
     [CHR ''A'', CHR 0x0A, CHR 0x0A, CHR ''B''] \<and>
   sorted (map order (segments stateAB)) \<and>
   finalOutput (withEffect (reorderSegments (segments stateAB)) stateAB) =
     [CHR ''A'', CHR 0x0A, CHR 0x0A, CHR ''B'']"
proof -
  have c: "consistent stateAB"
    by (simp add: consistent_def stateAB_def segA_def segB_def outputOf_def
        includedSegments_def sortBy_def)
  have s: "sorted (map order (segments stateAB))"
    by (simp add: stateAB_def segA_def segB_def)
  have "(1::nat) < length [segB, segA]" "(0::nat) < length [segB, segA]" by simp_all
  with c s show ?thesis
    using C6_reorder [of "[segB, segA]" stateAB]
    by (auto simp: stateAB_def)
qed

section \<open>The result cache\<close>

lemmas world_defs = worldAB_def stateAB_def segA_def segB_def worldSaved_def producedSegments_def
  shortened_def truncated_def conciseResponse_def conciseRequest_def OpenAIService_makeConcise_def
  makeConcise_def errorMessage_def truncatedMessage_def noResponseMessage_def breakFailed_def
  conciseFailed_def notInitializedMessage_def loadSession_def saveSession_def sessionData_def
  sessionKey_def cacheData_def removeItem_def clearError_def reorderSegments_def withIndexOrder_def

text \<open>A write the browser refuses leaves the storage as it was.\<close>

lemma setCachedResult_refused: "\<not> accepted \<Longrightarrow> setCachedResult accepted now k v ls = ls"
  by (simp add: setCachedResult_def setItem_def)

text \<open>
  C4, as stated, fails when the browser refuses the write, which \<open>setCachedResult\<close>
  absorbs: with an older entry under the key, the read after the write returns the
  older payload; with no entry, it is a miss although no time has passed.
\<close>

theorem C4_refused_write_counterexample:
  "fst (getCachedResult 1000 ''k''
          (setCachedResult False 1000 ''k'' (PText ''v'')
             [''k'' \<mapsto> Parsed (cacheData (PText ''old'') 900)])) = Some (PText ''old'') \<and>
   fst (getCachedResult 1000 ''k'' (setCachedResult False 1000 ''k'' (PText ''v'') Map.empty)) =
     None"
  by (simp add: getCachedResult_def setCachedResult_def setItem_def cacheData_def ttl_def)

text \<open>
  C4, amended. After a \<open>setCachedResult\<close> of \<open>v\<close> under \<open>k\<close> at the instant \<open>now\<close>
  whose write the browser accepted, a \<open>getCachedResult\<close> of \<open>k\<close> at the instant
  \<open>now'\<close> returns \<open>v\<close> while \<open>now' - now\<close> is less
  than 24 hours (and leaves the storage as the write made it); from 24 hours on it
  reports a miss and the item under \<open>k\<close> is removed from the storage.
\<close>

theorem C4_cache_set_get:
  assumes "accepted"
  shows
    "getCachedResult now' k (setCachedResult accepted now k v ls) =
       (if now' - now < 24 * 60 * 60 * 1000
        then (Some v, ls(k \<mapsto> Parsed (cacheData v now)))
        else (None, ls(k := None)))"
  using assms
  by (simp add: getCachedResult_def setCachedResult_def setItem_def cacheData_def removeItem_def
      ttl_def)

text \<open>One millisecond before the 24 hours are over, and at 24 hours.\<close>

theorem C4_cache_set_get_witness:
  "getCachedResult 86400999 ''k'' (setCachedResult True 1000 ''k'' (PText ''v'') Map.empty) =
     (Some (PText ''v''), [''k'' \<mapsto> Parsed (cacheData (PText ''v'') 1000)]) \<and>
   getCachedResult 86401000 ''k'' (setCachedResult True 1000 ''k'' (PText ''v'') Map.empty) =
     (None, Map.empty)"
  using C4_cache_set_get [of True 86400999 "''k''" 1000 "PText ''v''" Map.empty]
    C4_cache_set_get [of True 86401000 "''k''" 1000 "PText ''v''" Map.empty]
  by simp

section \<open>Segmenting twice\<close>

lemma getCachedResult_hit:
  "getCachedResult now key ls = (Some d, ls') \<Longrightarrow>
   ls' = ls \<and>
   (\<exists>entry t. ls key = Some (Parsed entry) \<and> obj_timestamp entry = Some t \<and>
      obj_data entry = Some d \<and> now - t < ttl)"
  by (auto simp: getCachedResult_def split: option.splits Item.splits if_splits)

lemma getCachedResult_fresh:
  "ls key = Some (Parsed entry) \<Longrightarrow> obj_timestamp entry = Some t \<Longrightarrow> now - t < ttl \<Longrightarrow>
   getCachedResult now key ls = (obj_data entry, ls)"
  by (simp add: getCachedResult_def)

lemma entryAge_Some:
  "entryAge now key ls = Some age \<Longrightarrow>
   \<exists>entry t. ls key = Some (Parsed entry) \<and> obj_timestamp entry = Some t \<and> age = now - t"
  by (auto simp: entryAge_def split: option.splits Item.splits)

lemma service_break_hit:
  assumes "client (openAIService w) = Some c" "config (openAIService w) = Some cfg"
    and "getCachedResult (dateNow_get env) (generateCacheKey ''break-segments'' p) (localStorage w)
          = (Some (PSegments segs), localStorage w)"
  shows "OpenAIService_breakPromptIntoSegments env p w = (Inr segs, w)"
  using assms by (simp add: OpenAIService_breakPromptIntoSegments_def)

text \<open>
  C3, as stated, fails when the browser refuses the cache write of the first call:
  the first call succeeds with one provider request, and the second call, at the same
  instant, succeeds with a second provider request.
\<close>

theorem C3_refused_write_counterexample:
  "fst (OpenAIService_breakPromptIntoSegments (answering False 1000 twoRecords) ''A'' worldAB) =
     Inr producedSegments \<and>
   length (providerLog (snd (OpenAIService_breakPromptIntoSegments
     (answering False 1000 twoRecords) ''A'' worldAB))) = 1 \<and>
   fst (OpenAIService_breakPromptIntoSegments (answering False 1000 twoRecords) ''A''
     (snd (OpenAIService_breakPromptIntoSegments (answering False 1000 twoRecords) ''A'' worldAB))) =
     Inr producedSegments \<and>
   length (providerLog (snd (OpenAIService_breakPromptIntoSegments
     (answering False 1000 twoRecords) ''A''
     (snd (OpenAIService_breakPromptIntoSegments (answering False 1000 twoRecords) ''A''
        worldAB))))) = 2"
  by (simp add: eval_defs world_defs)

text \<open>
  What a successful first call leaves in the storage when the browser accepts its
  write: an entry under the key of the prompt that holds the segments returned,
  stamped with the clock of the write when the provider was asked, and the entry that
  served the call otherwise.
\<close>

lemma first_call_leaves_entry:
  assumes first: "OpenAIService_breakPromptIntoSegments env p w0 = (Inr segs, w1)"
    and stored: "setItemAccepted env"
  shows "openAIService w1 = openAIService w0 \<and>
         length (providerLog w1) \<le> length (providerLog w0) + 1 \<and>
         (\<exists>entry t.
            localStorage w1 (generateCacheKey ''break-segments'' p) = Some (Parsed entry) \<and>
            obj_timestamp entry = Some t \<and> obj_data entry = Some (PSegments segs) \<and>
            (providerLog w1 \<noteq> providerLog w0 \<longrightarrow> t = dateNow_set env))"
proof -
  let ?key = "generateCacheKey ''break-segments'' p"
  obtain c cfg where
    init: "client (openAIService w0) = Some c" "config (openAIService w0) = Some cfg"
    using first
    by (auto simp: OpenAIService_breakPromptIntoSegments_def split: option.splits)
  obtain cached ls where
    g: "getCachedResult (dateNow_get env) ?key (localStorage w0) = (cached, ls)"
    by (cases "getCachedResult (dateNow_get env) ?key (localStorage w0)")
  show ?thesis
  proof (cases "\<exists>hit. cached = Some (PSegments hit)")
    case True
    then obtain hit where h: "cached = Some (PSegments hit)" by blast
    with first init g have r: "segs = hit" "w1 = w0\<lparr>localStorage := ls\<rparr>"
      by (auto simp: OpenAIService_breakPromptIntoSegments_def)
    from getCachedResult_hit [of "dateNow_get env" ?key "localStorage w0" "PSegments hit" ls] g h
    obtain entry t where
      "ls = localStorage w0" "localStorage w0 ?key = Some (Parsed entry)"
      "obj_timestamp entry = Some t" "obj_data entry = Some (PSegments hit)"
      by auto
    with r show ?thesis by auto
  next
    case False
    with first init g stored show ?thesis
      by (auto simp: OpenAIService_breakPromptIntoSegments_def Let_def setCachedResult_def
          setItem_def cacheData_def split: option.splits Payload.splits sum.splits)
  qed
qed

text \<open>
  C3, amended. If a first \<open>breakPromptIntoSegments\<close> of \<open>p\<close> succeeds with the
  segments \<open>segs\<close> and the browser accepts the cache write made during it, then the
  storage holds a cache entry of \<open>p\<close> afterwards (written at the clock of the write
  when the provider was asked). If a second call with the same \<open>p\<close> reads the clock
  while that entry is younger than 24 hours, it returns \<open>segs\<close> and changes nothing:
  it sends no request to the provider and leaves the storage as it is. The first call
  sent at most one request, so the two calls together sent at most one.
\<close>

theorem C3_second_call_from_cache:
  assumes first: "OpenAIService_breakPromptIntoSegments env p w0 = (Inr segs, w1)"
    and stored: "setItemAccepted env"
    and fresh: "\<And>age. entryAge (dateNow_get env') (generateCacheKey ''break-segments'' p)
                  (localStorage w1) = Some age \<Longrightarrow> age < ttl"
  shows "(\<exists>age. entryAge (dateNow_get env') (generateCacheKey ''break-segments'' p)
                  (localStorage w1) = Some age) \<and>
         (providerLog w1 \<noteq> providerLog w0 \<longrightarrow>
            entryAge (dateNow_get env') (generateCacheKey ''break-segments'' p)
              (localStorage w1) = Some (dateNow_get env' - dateNow_set env)) \<and>
         OpenAIService_breakPromptIntoSegments env' p w1 = (Inr segs, w1) \<and>
         length (providerLog w1) \<le> length (providerLog w0) + 1"
proof -
  let ?key = "generateCacheKey ''break-segments'' p"
  obtain c cfg where
    init: "client (openAIService w0) = Some c" "config (openAIService w0) = Some cfg"
    using first
    by (auto simp: OpenAIService_breakPromptIntoSegments_def split: option.splits)
  from first_call_leaves_entry [OF first stored] obtain entry t where
    svc: "openAIService w1 = openAIService w0"
    and log: "length (providerLog w1) \<le> length (providerLog w0) + 1"
    and e: "localStorage w1 ?key = Some (Parsed entry)" "obj_timestamp entry = Some t"
    and d: "obj_data entry = Some (PSegments segs)"
    and asked: "providerLog w1 \<noteq> providerLog w0 \<longrightarrow> t = dateNow_set env"
    by blast
  have age: "entryAge (dateNow_get env') ?key (localStorage w1) = Some (dateNow_get env' - t)"
    using e by (simp add: entryAge_def)
  then have young: "dateNow_get env' - t < ttl"
    by (rule fresh)
  have "getCachedResult (dateNow_get env') ?key (localStorage w1) =
        (Some (PSegments segs), localStorage w1)"
    using getCachedResult_fresh [of "localStorage w1" ?key entry t "dateNow_get env'"] e d young
    by simp
  then have "OpenAIService_breakPromptIntoSegments env' p w1 = (Inr segs, w1)"
    using init svc by (intro service_break_hit [of w1 c cfg]) simp_all
  with log age asked show ?thesis by auto
qed

text \<open>
  The first call at the instant 1000 asks the provider and caches; the second call at
  the instant 5000, on the world the first call left and with a provider that would
  reject, is served from the entry, then 4000 milliseconds old.
\<close>

theorem C3_second_call_from_cache_witness:
  "fst (OpenAIService_breakPromptIntoSegments (answering True 1000 twoRecords) ''A'' worldAB) =
     Inr producedSegments \<and>
   length (providerLog (snd (OpenAIService_breakPromptIntoSegments
     (answering True 1000 twoRecords) ''A'' worldAB))) = 1 \<and>
   entryAge 5000 (generateCacheKey ''break-segments'' ''A'')
     (localStorage (snd (OpenAIService_breakPromptIntoSegments
        (answering True 1000 twoRecords) ''A'' worldAB))) = Some 4000 \<and>
   OpenAIService_breakPromptIntoSegments (answering True 5000 (Rejected None)) ''A''
     (snd (OpenAIService_breakPromptIntoSegments (answering True 1000 twoRecords) ''A'' worldAB)) =
     (Inr producedSegments,
      snd (OpenAIService_breakPromptIntoSegments (answering True 1000 twoRecords) ''A'' worldAB))"
proof -
  let ?w1 = "worldAB\<lparr>localStorage := [generateCacheKey ''break-segments'' ''A'' \<mapsto>
                   Parsed (cacheData (PSegments producedSegments) 1000)],
                providerLog := [breakRequest exampleConfig ''A'']\<rparr>"
  have first:
    "OpenAIService_breakPromptIntoSegments (answering True 1000 twoRecords) ''A'' worldAB =
     (Inr producedSegments, ?w1)"
    by (simp add: eval_defs world_defs)
  have stored: "setItemAccepted (answering True 1000 twoRecords)"
    by (simp add: answering_def)
  have fresh:
    "entryAge (dateNow_get (answering True 5000 (Rejected None)))
       (generateCacheKey ''break-segments'' ''A'') (localStorage ?w1) = Some age \<Longrightarrow> age < ttl"
    for age
    by (auto simp: entryAge_def answering_def cacheData_def ttl_def)
  have now2: "dateNow_get (answering True 5000 (Rejected None)) = 5000"
    and set1: "dateNow_set (answering True 1000 twoRecords) = 1000"
    and asked: "providerLog ?w1 \<noteq> providerLog worldAB"
    by (simp_all add: answering_def worldAB_def)
  show ?thesis
    using C3_second_call_from_cache
        [where env' = "answering True 5000 (Rejected None)", OF first stored fresh]
      first now2 set1 asked
    by simp
qed

section \<open>Truncated responses\<close>

text \<open>
  C2. The claim holds on \<open>breakPromptIntoSegments\<close> and fails on \<open>makeConcise\<close>.
  With a configured service, an empty cache and a provider response without content
  whose \<open>finish_reason\<close> is \<open>length\<close>, \<open>makeConcise\<close> rejects with the generic
  message of an empty response, which the hook stores as the error, while
  \<open>breakPromptIntoSegments\<close> rejects with the message of a truncated response.
\<close>

theorem C2_makeConcise_truncated_is_no_response:
  "fst (OpenAIService_makeConcise (answering True 1000 truncated) ''B'' worldAB) =
     Inl ''Failed to make content concise: No response from OpenAI'' \<and>
   error (state (makeConcise (answering True 1000 truncated) ''b'' worldAB)) =
     Some ''Failed to make content concise: No response from OpenAI'' \<and>
   fst (OpenAIService_breakPromptIntoSegments (answering True 1000 truncated) ''A'' worldAB) =
     Inl ''Failed to break prompt into segments: Response was truncated due to token limit. The prompt may be too large to process in one request.''"
  by (simp add: eval_defs world_defs)

section \<open>Saving and loading the session\<close>

text \<open>
  C7. After a \<open>saveSession\<close> that returns, in any world whose storage still holds the
  item it wrote under the session key, \<open>loadSession\<close> reports a session and sets
  \<open>originalPrompt\<close> and the segment list to what they were in the state saved: every
  segment with its id, content, order and \<open>isIncluded\<close> (and the other fields too).
\<close>

theorem C7_save_then_load:
  assumes "saveSession accepted now w = Some w1"
    and "localStorage w2 sessionKey = localStorage w1 sessionKey"
  shows "fst (loadSession w2) \<and>
         originalPrompt (state (snd (loadSession w2))) = originalPrompt (state w) \<and>
         segments (state (snd (loadSession w2))) = segments (state w) \<and>
         map id_seg (segments (state (snd (loadSession w2)))) = map id_seg (segments (state w)) \<and>
         map content (segments (state (snd (loadSession w2)))) = map content (segments (state w)) \<and>
         map order (segments (state (snd (loadSession w2)))) = map order (segments (state w)) \<and>
         map isIncluded (segments (state (snd (loadSession w2)))) =
           map isIncluded (segments (state w))"
  using assms
  by (auto simp: saveSession_def setItem_def loadSession_def sessionData_def withEffect_def
      updateFinalOutput_def orElse_def split: if_splits)

text \<open>
  The session of \<open>worldAB\<close> is saved at the instant 5; the hook of a fresh page, over
  the storage the save left, loads the prompt and the two segments.
\<close>

theorem C7_save_then_load_witness:
  "saveSession True 5 worldAB = Some worldSaved \<and>
   fst (loadSession (initialWorld (localStorage worldSaved))) \<and>
   originalPrompt (state (snd (loadSession (initialWorld (localStorage worldSaved))))) =
     [CHR ''A'', CHR 0x0A, CHR 0x0A, CHR ''B''] \<and>
   segments (state (snd (loadSession (initialWorld (localStorage worldSaved))))) = [segA, segB]"
proof -
  have s: "saveSession True 5 worldAB = Some worldSaved"
    by (simp add: saveSession_def setItem_def worldSaved_def worldAB_def)
  have k: "localStorage (initialWorld (localStorage worldSaved)) sessionKey =
           localStorage worldSaved sessionKey"
    by (simp add: initialWorld_def)
  show ?thesis
    using s C7_save_then_load [OF s k] by (simp add: worldAB_def stateAB_def)
qed

section \<open>When the error is cleared\<close>

text \<open>
  C8, as stated, fails: an operation of the provider that is dispatched clears the
  stored error before it calls the service, so the error is gone after a successful
  \<open>breakPromptIntoSegments\<close> or \<open>makeConcise\<close>, and \<open>loadSession\<close> clears it when it
  finds a session.
\<close>

theorem C8_error_cleared_counterexample:
  "error (state worldAB) =
     Some ''Failed to break prompt into segments: No response from OpenAI'' \<and>
   error (state (breakPromptIntoSegments (answering True 1000 twoRecords) worldAB)) = None \<and>
   error (state (makeConcise (answering True 1000 shortened) ''b'' worldAB)) = None \<and>
   error (state worldSaved) =
     Some ''Failed to break prompt into segments: No response from OpenAI'' \<and>
   error (state (snd (loadSession worldSaved))) = None"
  by (simp add: eval_defs world_defs)

lemma service_break_state:
  "OpenAIService_breakPromptIntoSegments env p (w\<lparr>state := s\<rparr>) =
   (fst (OpenAIService_breakPromptIntoSegments env p w),
    (snd (OpenAIService_breakPromptIntoSegments env p w))\<lparr>state := s\<rparr>)"
  by (simp add: OpenAIService_breakPromptIntoSegments_def Let_def
      split: option.split prod.split sum.split Payload.split)

lemma service_concise_state:
  "OpenAIService_makeConcise env p (w\<lparr>state := s\<rparr>) =
   (fst (OpenAIService_makeConcise env p w),
    (snd (OpenAIService_makeConcise env p w))\<lparr>state := s\<rparr>)"
  by (simp add: OpenAIService_makeConcise_def Let_def
      split: option.split prod.split sum.split Payload.split list.split)

text \<open>The state after a dispatched operation, by the outcome of the service.\<close>

lemma state_break_dispatched:
  assumes "trim (originalPrompt (state w)) \<noteq> []" "isInitialized (openAIService w)"
  shows "state (breakPromptIntoSegments env w) =
     (case fst (OpenAIService_breakPromptIntoSegments env (originalPrompt (state w)) w) of
        Inr segs \<Rightarrow>
          (state w)\<lparr>segments := segs, finalOutput := outputOf segs, isLoading := False,
                     error := None\<rparr>
      | Inl message \<Rightarrow> (state w)\<lparr>isLoading := False, error := Some message\<rparr>)"
  using assms state_service_break [of env "originalPrompt (state w)" w]
  by (simp add: breakPromptIntoSegments_def service_break_state startLoading_def failLoading_def
      withEffect_def updateFinalOutput_def split: sum.split)

lemma state_concise_dispatched:
  assumes "find (\<lambda>s. id_seg s = segmentId) (segments (state w)) = Some segment"
    "isInitialized (openAIService w)"
  shows "state (makeConcise env segmentId w) =
     (case fst (OpenAIService_makeConcise env (content segment) w) of
        Inr conciseContent \<Rightarrow>
          (withEffect
             (updateSegment segmentId
                \<lparr>upd_id = None, upd_content = Some conciseContent, upd_title = None,
                 upd_isIncluded = None, upd_order = None, upd_isEditing = None,
                 upd_isExpanded = None\<rparr>)
             (state w))\<lparr>isLoading := False, error := None\<rparr>
      | Inl message \<Rightarrow> (state w)\<lparr>isLoading := False, error := Some message\<rparr>)"
  using assms state_service_concise [of env "content segment" w]
  by (simp add: makeConcise_def service_concise_state startLoading_def failLoading_def
      withEffect_def updateFinalOutput_def updateSegment_def split: sum.split)

text \<open>
  C8, amended. \<open>updateSegment\<close>, \<open>reorderSegments\<close> and \<open>saveSession\<close> leave the
  error as it is. The error is cleared by \<open>clearError\<close> and \<open>setOriginalPrompt\<close>, and
  also by \<open>loadSession\<close> when it finds a parsable session (otherwise it changes
  nothing) and by an operation of the provider that passes its guards: after it the
  error is null when the service succeeded and the message of the new failure when it
  failed.
\<close>

theorem C8_error_field:
  "error (state (perform (UpdateSegment i updates) w)) = error (state w) \<and>
   error (state (perform (ReorderSegments L) w)) = error (state w) \<and>
   error (state (perform (SaveSession accepted now) w)) = error (state w) \<and>
   error (state (perform ClearError w)) = None \<and>
   error (state (perform (SetOriginalPrompt text) w)) = None \<and>
   (fst (loadSession w) \<longrightarrow> error (state (perform LoadSession w)) = None) \<and>
   (\<not> fst (loadSession w) \<longrightarrow> perform LoadSession w = w) \<and>
   (trim (originalPrompt (state w)) \<noteq> [] \<and> isInitialized (openAIService w) \<longrightarrow>
      error (state (perform (BreakPromptIntoSegments env) w)) =
        (case fst (OpenAIService_breakPromptIntoSegments env (originalPrompt (state w)) w) of
           Inr segs \<Rightarrow> None
         | Inl message \<Rightarrow> Some message)) \<and>
   (find (\<lambda>s. id_seg s = segmentId) (segments (state w)) = Some segment \<and>
    isInitialized (openAIService w) \<longrightarrow>
      error (state (perform (MakeConciseOf env segmentId) w)) =
        (case fst (OpenAIService_makeConcise env (content segment) w) of
           Inr conciseContent \<Rightarrow> None
         | Inl message \<Rightarrow> Some message))"
proof (intro conjI impI)
  show "error (state (perform (UpdateSegment i updates) w)) = error (state w)"
    by (simp add: withEffect_def updateFinalOutput_def updateSegment_def)
  show "error (state (perform (ReorderSegments L) w)) = error (state w)"
    by (simp add: withEffect_def updateFinalOutput_def reorderSegments_def)
  show "error (state (perform (SaveSession accepted now) w)) = error (state w)"
    by (simp add: saveSession_def split: option.split)
  show "error (state (perform ClearError w)) = None"
    by (simp add: clearError_def)
  show "error (state (perform (SetOriginalPrompt text) w)) = None"
    by (simp add: withEffect_def updateFinalOutput_def setOriginalPrompt_def)
  show "error (state (perform LoadSession w)) = None" if "fst (loadSession w)"
    using that
    by (simp add: loadSession_def withEffect_def updateFinalOutput_def
        split: option.splits Item.splits)
  show "perform LoadSession w = w" if "\<not> fst (loadSession w)"
    using that by (simp add: loadSession_def split: option.splits Item.splits)
  show "error (state (perform (BreakPromptIntoSegments env) w)) =
        (case fst (OpenAIService_breakPromptIntoSegments env (originalPrompt (state w)) w) of
           Inr segs \<Rightarrow> None
         | Inl message \<Rightarrow> Some message)"
    if "trim (originalPrompt (state w)) \<noteq> [] \<and> isInitialized (openAIService w)"
    using that state_break_dispatched [of w env] by (simp split: sum.split)
  show "error (state (perform (MakeConciseOf env segmentId) w)) =
        (case fst (OpenAIService_makeConcise env (content segment) w) of
           Inr conciseContent \<Rightarrow> None
         | Inl message \<Rightarrow> Some message)"
    if "find (\<lambda>s. id_seg s = segmentId) (segments (state w)) = Some segment \<and>
        isInitialized (openAIService w)"
    using that state_concise_dispatched [of segmentId w segment env] by (simp split: sum.split)
qed

text \<open>
  In \<open>worldAB\<close>, which holds an error: excluding a segment keeps the error, a
  segmentation that succeeds leaves none, and loading the saved session leaves none.
\<close>

theorem C8_error_field_witness:
  "error (state (perform (UpdateSegment ''b'' exclude) worldAB)) =
     Some ''Failed to break prompt into segments: No response from OpenAI'' \<and>
   trim (originalPrompt (state worldAB)) \<noteq> [] \<and>
   isInitialized (openAIService worldAB) \<and>
   error (state (perform (BreakPromptIntoSegments (answering True 1000 twoRecords)) worldAB)) =
     None \<and>
   fst (loadSession worldSaved) \<and>
   error (state (perform LoadSession worldSaved)) = None"
proof -
  have g: "trim (originalPrompt (state worldAB)) \<noteq> [] \<and> isInitialized (openAIService worldAB)"
    by (simp add: eval_defs world_defs)
  have s: "fst (OpenAIService_breakPromptIntoSegments (answering True 1000 twoRecords)
             (originalPrompt (state worldAB)) worldAB) = Inr producedSegments"
    by (simp add: eval_defs world_defs)
  have l: "fst (loadSession worldSaved)"
    by (simp add: world_defs)
  have e: "error (state worldAB) =
      Some ''Failed to break prompt into segments: No response from OpenAI''"
    by (simp add: world_defs)
  show ?thesis
    using g s l e
      C8_error_field [where i = "''b''" and updates = exclude and w = worldAB
        and env = "answering True 1000 twoRecords"]
      C8_error_field [where w = worldSaved]
    by simp
qed

section \<open>Failed and undispatched operations\<close>

text \<open>
  C9. When an operation of the provider is dispatched (its guards pass) and the
  service rejects, the state afterwards is the state before with \<open>isLoading\<close> false
  and \<open>error\<close> the message of the rejection: \<open>originalPrompt\<close>, \<open>segments\<close> and
  \<open>finalOutput\<close> are as they were.
\<close>

theorem C9_failed_operation:
  "(trim (originalPrompt (state w)) \<noteq> [] \<and> isInitialized (openAIService w) \<and>
    fst (OpenAIService_breakPromptIntoSegments env (originalPrompt (state w)) w) = Inl message \<longrightarrow>
      state (breakPromptIntoSegments env w) =
        (state w)\<lparr>isLoading := False, error := Some message\<rparr>) \<and>
   (find (\<lambda>s. id_seg s = segmentId) (segments (state w)) = Some segment \<and>
    isInitialized (openAIService w) \<and>
    fst (OpenAIService_makeConcise env (content segment) w) = Inl message \<longrightarrow>
      state (makeConcise env segmentId w) =
        (state w)\<lparr>isLoading := False, error := Some message\<rparr>)"
  using state_break_dispatched [of w env] state_concise_dispatched [of segmentId w segment env]
  by simp

text \<open>
  In \<open>worldAB\<close> with a provider whose response is truncated, both operations fail
  and leave the prompt, the segments and the output of \<open>stateAB\<close>.
\<close>

theorem C9_failed_operation_witness:
  "state (breakPromptIntoSegments (answering True 1000 truncated) worldAB) =
     stateAB\<lparr>isLoading := False,
              error := Some ''Failed to break prompt into segments: Response was truncated due to token limit. The prompt may be too large to process in one request.''\<rparr> \<and>
   state (makeConcise (answering True 1000 truncated) ''b'' worldAB) =
     stateAB\<lparr>isLoading := False,
              error := Some ''Failed to make content concise: No response from OpenAI''\<rparr>"
proof -
  have g: "trim (originalPrompt (state worldAB)) \<noteq> [] \<and> isInitialized (openAIService worldAB)"
    by (simp add: eval_defs world_defs)
  have b: "fst (OpenAIService_breakPromptIntoSegments (answering True 1000 truncated)
             (originalPrompt (state worldAB)) worldAB) =
           Inl ''Failed to break prompt into segments: Response was truncated due to token limit. The prompt may be too large to process in one request.''"
    by (simp add: eval_defs world_defs)
  have f: "find (\<lambda>s. id_seg s = ''b'') (segments (state worldAB)) = Some segB"
    by (simp add: world_defs)
  have c: "fst (OpenAIService_makeConcise (answering True 1000 truncated) (content segB) worldAB) =
           Inl ''Failed to make content concise: No response from OpenAI''"
    by (simp add: eval_defs world_defs)
  have s: "state worldAB = stateAB"
    by (simp add: worldAB_def)
  show ?thesis
    using g b f c s
      C9_failed_operation [where w = worldAB and env = "answering True 1000 truncated"
        and segmentId = "''b''" and segment = segB
        and message = "''Failed to break prompt into segments: Response was truncated due to token limit. The prompt may be too large to process in one request.''"]
      C9_failed_operation [where w = worldAB and env = "answering True 1000 truncated"
        and segmentId = "''b''" and segment = segB
        and message = "''Failed to make content concise: No response from OpenAI''"]
    by simp
qed

text \<open>
  C10. \<open>breakPromptIntoSegments\<close> with a prompt that is empty or white space only, or
  with a service that is not initialised, and \<open>makeConcise\<close> with an id that no
  segment has, or with a service that is not initialised, return the world they were
  given: the state (error and \<open>isLoading\<close> included), the storage and the log of
  provider requests are unchanged. A service that is initialised never rejects with
  the message of a service that is not, so that message does not reach the state
  through the two callbacks.
\<close>

theorem C10_guards:
  "(trim (originalPrompt (state w)) = [] \<or> \<not> isInitialized (openAIService w) \<longrightarrow>
      breakPromptIntoSegments env w = w) \<and>
   (find (\<lambda>s. id_seg s = segmentId) (segments (state w)) = None \<or>
    \<not> isInitialized (openAIService w) \<longrightarrow>
      makeConcise env segmentId w = w) \<and>
   (isInitialized (openAIService w) \<longrightarrow>
      fst (OpenAIService_breakPromptIntoSegments env prompt w) \<noteq> Inl notInitializedMessage \<and>
      fst (OpenAIService_makeConcise env prompt w) \<noteq> Inl notInitializedMessage)"
proof (intro conjI impI)
  show "breakPromptIntoSegments env w = w"
    if "trim (originalPrompt (state w)) = [] \<or> \<not> isInitialized (openAIService w)"
    using that by (auto simp: breakPromptIntoSegments_def)
  show "makeConcise env segmentId w = w"
    if "find (\<lambda>s. id_seg s = segmentId) (segments (state w)) = None \<or>
        \<not> isInitialized (openAIService w)"
    using that by (auto simp: makeConcise_def split: option.split)
  show "fst (OpenAIService_breakPromptIntoSegments env prompt w) \<noteq> Inl notInitializedMessage"
    if "isInitialized (openAIService w)"
    using that
    by (auto simp: OpenAIService_breakPromptIntoSegments_def isInitialized_def Let_def
        breakFailed_def notInitializedMessage_def
        split: prod.splits option.splits Payload.splits sum.splits)
  show "fst (OpenAIService_makeConcise env prompt w) \<noteq> Inl notInitializedMessage"
    if "isInitialized (openAIService w)"
    using that
    by (auto simp: OpenAIService_makeConcise_def isInitialized_def Let_def
        conciseFailed_def notInitializedMessage_def
        split: prod.splits option.splits Payload.splits sum.splits list.splits)
qed

text \<open>
  A prompt of a space, a line feed and a tab with a configured service; the initial
  world, whose service is not initialised; an id that no segment has.
\<close>

theorem C10_guards_witness:
  "trim [CHR '' '', CHR 0x0A, CHR 0x09] = [] \<and>
   breakPromptIntoSegments (answering True 1000 twoRecords)
     (worldAB\<lparr>state := stateAB\<lparr>originalPrompt := [CHR '' '', CHR 0x0A, CHR 0x09]\<rparr>\<rparr>) =
     worldAB\<lparr>state := stateAB\<lparr>originalPrompt := [CHR '' '', CHR 0x0A, CHR 0x09]\<rparr>\<rparr> \<and>
   breakPromptIntoSegments (answering True 1000 twoRecords)
     ((initialWorld Map.empty)\<lparr>state := stateAB\<rparr>) = (initialWorld Map.empty)\<lparr>state := stateAB\<rparr> \<and>
   makeConcise (answering True 1000 shortened) ''zz'' worldAB = worldAB \<and>
   makeConcise (answering True 1000 shortened) ''b'' ((initialWorld Map.empty)\<lparr>state := stateAB\<rparr>) =
     (initialWorld Map.empty)\<lparr>state := stateAB\<rparr>"
proof -
  have t: "trim [CHR '' '', CHR 0x0A, CHR 0x09] = []"
    by (simp add: trim_def isWhiteSpace_def)
  have n: "\<not> isInitialized (openAIService ((initialWorld Map.empty)\<lparr>state := stateAB\<rparr>))"
    by (simp add: initialWorld_def newService_def isInitialized_def)
  have f: "find (\<lambda>s. id_seg s = ''zz'') (segments (state worldAB)) = None"
    by (simp add: world_defs)
  show ?thesis
    using t n f
      C10_guards [where env = "answering True 1000 twoRecords" and
        w = "worldAB\<lparr>state := stateAB\<lparr>originalPrompt := [CHR '' '', CHR 0x0A, CHR 0x09]\<rparr>\<rparr>"]
      C10_guards [where env = "answering True 1000 twoRecords" and
        w = "(initialWorld Map.empty)\<lparr>state := stateAB\<rparr>"]
      C10_guards [where env = "answering True 1000 shortened" and w = worldAB and
        segmentId = "''zz''"]
      C10_guards [where env = "answering True 1000 shortened" and
        w = "(initialWorld Map.empty)\<lparr>state := stateAB\<rparr>" and segmentId = "''b''"]
    by simp
qed

end
